theory Spec2Isabelle
  imports Main "HOL-Library.Word"
begin

section \<open>JavaScript values used by the fixtures\<close>

text \<open>
  A JavaScript string is a sequence of 16-bit code units. The fixtures mix ASCII text with
  CJK text; \<open>ascii\<close> embeds the ASCII part, the other code units are written out.
\<close>

type_synonym js_string = "16 word list"

definition ascii :: "string \<Rightarrow> js_string" where
  "ascii s = map of_char s"

text \<open>
  The values the fixtures compute with. Every number literal of the three files is a
  small integer (0, 1, 2, 3, 5), on which the addition of JavaScript numbers is the
  addition of integers, so numbers are modelled as \<open>int\<close>. \<open>ConsoleObject\<close> is the
  console object of the host, the one value whose property \<open>log\<close> is a function that
  writes to the console.
\<close>

datatype js_value = Undefined | Num int | Str js_string | ConsoleObject

text \<open>
  The failures the fixtures can run into: an identifier that resolves nowhere, a
  property read on \<open>undefined\<close> or a call of something that is not a function (the
  error names the expression), a \<open>toBe\<close> assertion whose operands differ (expected
  value first, received value second), and an import that the test runner cannot
  resolve or link.
\<close>

datatype js_error =
    ReferenceError string
  | TypeError string
  | AssertionMismatch js_value js_value
  | CannotFindModule string
  | MissingExport string string

section \<open>The test-failure fixture: \<open>tests/utils/test-fail.test.js\<close>\<close>

text \<open>
  Modelled from the spec: the collaborator module \<open>normal-utils\<close> that the fixture
  imports \<open>sum\<close> from is not among the source files. The spec gives its contract,
  \<open>sum(a: number, b: number) -> number\<close>, pure addition, and the last line of the fixture
  quotes it in a comment: \<open>export const sum = (a, b) => a + b\<close>.
\<close>

definition sum_collab :: "int \<Rightarrow> int \<Rightarrow> int" where
  "sum_collab a b = a + b"

text \<open>
  \<open>expect(received).toBe(expected)\<close> returns normally when both values are the same
  (\<open>Object.is\<close>, which on these primitives is equality) and throws otherwise; the error
  carries both values for the report \<open>Expected: ..., Received: ...\<close>.
\<close>

definition expect_toBe :: "js_value \<Rightarrow> js_value \<Rightarrow> js_error + unit" where
  "expect_toBe received expected =
     (if received = expected then Inr () else Inl (AssertionMismatch expected received))"

text \<open>
  The two callbacks handed to \<open>test\<close> (lines 9-11 and 14-17), as functions of the binding
  that the import on line 6 provides.
\<close>

type_synonym binary_fn = "int \<Rightarrow> int \<Rightarrow> int"

definition test_case_1 :: "binary_fn \<Rightarrow> js_error + unit" where
  "test_case_1 sum_fn = expect_toBe (Num (sum_fn 2 3)) (Num 5)"

definition test_case_2 :: "binary_fn \<Rightarrow> js_error + unit" where
  "test_case_2 sum_fn = (let result = Num (sum_fn 1 1) in expect_toBe result (Num 3))"

definition test_name_1 :: js_string where
  "test_name_1 = ascii ''sum(2,3) '' @ [0x5E94, 0x8FD4, 0x56DE] @ ascii '' 5''
     @ [0xFF08, 0x6B63, 0x5E38, 0x7528, 0x4F8B, 0xFF09]"

definition test_name_2 :: js_string where
  "test_name_2 = ascii ''sum(1,1) '' @ [0x6545, 0x610F, 0x65AD, 0x8A00, 0x4E3A] @ ascii '' 3''
     @ [0xFF08, 0x89E6, 0x53D1, 0x6D4B, 0x8BD5, 0x5931, 0x8D25, 0xFF09]"

text \<open>
  Evaluating the module body registers the two cases with the runner, in source order.
\<close>

definition test_fail_cases :: "binary_fn \<Rightarrow> (js_string \<times> (js_error + unit)) list" where
  "test_fail_cases sum_fn = [(test_name_1, test_case_1 sum_fn), (test_name_2, test_case_2 sum_fn)]"

section \<open>Module resolution\<close>

text \<open>
  An import specifier that starts with \<open>./\<close> or \<open>../\<close> is a path relative to the
  directory of the importing file; any other specifier names a package, which resolves
  when the project declares it as a dependency. Paths are split at \<open>/\<close>, the segments
  \<open>.\<close> and \<open>..\<close> are resolved, and the result is tried as it is, with each known file
  extension, and as a directory with an index file.
\<close>

fun split_path_aux :: "string \<Rightarrow> string \<Rightarrow> string list" where
  "split_path_aux cur [] = [rev cur]"
| "split_path_aux cur (c # cs) =
     (if c = CHR ''/'' then rev cur # split_path_aux [] cs else split_path_aux (c # cur) cs)"

definition split_path :: "string \<Rightarrow> string list" where
  "split_path p = split_path_aux [] p"

fun join_path :: "string list \<Rightarrow> string" where
  "join_path [] = []"
| "join_path [s] = s"
| "join_path (s # t # ss) = s @ ''/'' @ join_path (t # ss)"

text \<open>The first argument is the stack of segments kept so far, innermost first.\<close>

fun normalise :: "string list \<Rightarrow> string list \<Rightarrow> string list" where
  "normalise stack [] = rev stack"
| "normalise stack (s # ss) =
     (if s = ''.'' \<or> s = [] then normalise stack ss
      else if s = ''..'' then
        (case stack of
           [] \<Rightarrow> normalise [s] ss
         | t # ts \<Rightarrow> if t = ''..'' then normalise (s # stack) ss else normalise ts ss)
      else normalise (s # stack) ss)"

definition is_relative :: "string \<Rightarrow> bool" where
  "is_relative spec = (case split_path spec of [] \<Rightarrow> False | s # _ \<Rightarrow> s = ''.'' \<or> s = ''..'')"

definition module_extensions :: "string list" where
  "module_extensions =
     [''.js'', ''.mjs'', ''.cjs'', ''.jsx'', ''.ts'', ''.tsx'', ''.json'', ''.node'']"

definition candidates :: "string \<Rightarrow> string list" where
  "candidates p =
     p # map (\<lambda>e. p @ e) module_extensions @ map (\<lambda>e. p @ ''/index'' @ e) module_extensions"

record project =
  files :: "string list"
  dependencies :: "string list"

definition resolve :: "project \<Rightarrow> string \<Rightarrow> string \<Rightarrow> string option" where
  "resolve prj importer spec =
     (if is_relative spec then
        find (\<lambda>p. p \<in> set (files prj))
          (candidates (join_path (normalise [] (butlast (split_path importer) @ split_path spec))))
      else if spec \<in> set (dependencies prj) then Some (''node_modules/'' @ spec)
      else None)"

text \<open>
  The source files of the repository, by the path each one has in the repository. The
  declared dependency set (\<open>package.json\<close>) is not a source file and stays a parameter.
\<close>

definition build_fail_path :: string where
  "build_fail_path = ''src/components/test-build-fail.js''"

definition lint_fail_path :: string where
  "lint_fail_path = ''src/utils/test-lint-fail.js''"

definition test_fail_path :: string where
  "test_fail_path = ''src/utils/tests/utils/test-fail.test.js''"

text \<open>The header comment of the test fixture names a different location for it.\<close>

definition test_fail_documented_path :: string where
  "test_fail_documented_path = ''tests/utils/test-fail.test.js''"

definition repository_files :: "string list" where
  "repository_files = [build_fail_path, lint_fail_path, test_fail_path]"

definition repository :: "string list \<Rightarrow> project" where
  "repository deps = \<lparr>files = repository_files, dependencies = deps\<rparr>"

section \<open>Running the test-failure fixture\<close>

text \<open>Line 6: \<open>import { sum } from "../../src/utils/normal-utils"\<close>.\<close>

definition sum_specifier :: string where
  "sum_specifier = ''../../src/utils/normal-utils''"

text \<open>
  What the modules of a project export: module path, then export name. Only binary
  numeric functions are imported by the fixtures.
\<close>

type_synonym linker = "string \<Rightarrow> string \<Rightarrow> binary_fn option"

definition import_sum :: "project \<Rightarrow> linker \<Rightarrow> string \<Rightarrow> js_error + binary_fn" where
  "import_sum prj exports importer =
     (case resolve prj importer sum_specifier of
        None \<Rightarrow> Inl (CannotFindModule sum_specifier)
      | Some p \<Rightarrow>
          (case exports p ''sum'' of
             None \<Rightarrow> Inl (MissingExport p ''sum'')
           | Some f \<Rightarrow> Inr f))"

text \<open>
  Modelled from the spec: the test runner is an external tool, not code of the
  repository. It reports per case and a failing case does not abort its siblings; its
  exit code is 0 only if all cases pass. A module that cannot be loaded gives a suite
  that failed to run, with no case reported. Otherwise every registered callback is run
  on its own, and a callback that throws fails its own case only.
\<close>

datatype verdict = Passed | Failed js_error

datatype suite_result =
    SuiteFailedToRun js_error
  | SuiteRan "(js_string \<times> verdict) list"

definition run_case :: "js_error + unit \<Rightarrow> verdict" where
  "run_case body = (case body of Inl e \<Rightarrow> Failed e | Inr _ \<Rightarrow> Passed)"

definition run_cases :: "(js_string \<times> (js_error + unit)) list \<Rightarrow> (js_string \<times> verdict) list" where
  "run_cases cs = map (\<lambda>(name, body). (name, run_case body)) cs"

definition run_test_fail :: "project \<Rightarrow> linker \<Rightarrow> string \<Rightarrow> suite_result" where
  "run_test_fail prj exports importer =
     (case import_sum prj exports importer of
        Inl e \<Rightarrow> SuiteFailedToRun e
      | Inr sum_fn \<Rightarrow> SuiteRan (run_cases (test_fail_cases sum_fn)))"

definition reported_cases :: "suite_result \<Rightarrow> (js_string \<times> verdict) list" where
  "reported_cases r = (case r of SuiteFailedToRun _ \<Rightarrow> [] | SuiteRan vs \<Rightarrow> vs)"

definition passed_cases :: "suite_result \<Rightarrow> js_string list" where
  "passed_cases r = map fst (filter (\<lambda>(name, v). v = Passed) (reported_cases r))"

definition failed_cases :: "suite_result \<Rightarrow> js_string list" where
  "failed_cases r = map fst (filter (\<lambda>(name, v). v \<noteq> Passed) (reported_cases r))"

text \<open>
  A project that also holds the collaborator module at the place the import resolves to,
  exporting \<open>sum\<close>.
\<close>

definition collaborator_path :: string where
  "collaborator_path = ''src/utils/src/utils/normal-utils.js''"

definition with_collaborator :: "string list \<Rightarrow> project" where
  "with_collaborator deps = \<lparr>files = repository_files @ [collaborator_path], dependencies = deps\<rparr>"

definition collaborator_exports :: linker where
  "collaborator_exports p name =
     (if p = collaborator_path \<and> name = ''sum'' then Some sum_collab else None)"

text \<open>
  A project that holds a \<open>normal-utils.js\<close> beside the lint-failure fixture, the place
  the import would reach from the location named in the header comment of the test
  fixture.
\<close>

definition documented_collaborator_path :: string where
  "documented_collaborator_path = ''src/utils/normal-utils.js''"

definition with_documented_collaborator :: "string list \<Rightarrow> project" where
  "with_documented_collaborator deps =
     \<lparr>files = repository_files @ [documented_collaborator_path], dependencies = deps\<rparr>"

section \<open>The syntax of the fixtures\<close>

text \<open>
  The build tool and the linter do not run a fixture, they read it. The part of
  JavaScript and JSX that the three files are written in, as syntax trees.
\<close>

datatype jsx_tag = Intrinsic string | Component string

datatype pattern = PVar string | PArray "string list"

datatype expr =
    NumLit int
  | StrLit js_string
  | Ident string
  | Member expr string
  | Call expr "expr list"
  | Plus expr expr
  | Arrow "string list" body
  | Jsx jsx_tag "jsx_attr list" "jsx_child list"
and body =
    ExprBody expr
  | BlockBody "stmt list"
and stmt =
    ExprStmt expr
  | Const pattern expr
  | Return expr
and jsx_attr =
    Attr string expr
and jsx_child =
    JsxText js_string
  | JsxExpr expr
  | JsxComment
  | JsxElement expr

datatype import_clause = DefaultImport string | NamedImport string

datatype module_item =
    Import "import_clause list" string
  | Item stmt
  | ExportConst string expr
  | ExportDefault expr

type_synonym js_module = "module_item list"

subsection \<open>Scopes and unbound references\<close>

text \<open>
  A \<open>const\<close> declaration binds its names in the whole block that holds it, an arrow
  function binds its parameters in its body, an import binds its local names in the
  whole module. \<open>free_expr scope e\<close> lists, in source order, the identifier references of
  \<open>e\<close> that nothing in \<open>scope\<close> and nothing inside \<open>e\<close> binds. A JSX tag in lower case is
  the name of a host element, any other tag is a reference to an identifier.
\<close>

fun pattern_names :: "pattern \<Rightarrow> string list" where
  "pattern_names (PVar x) = [x]"
| "pattern_names (PArray xs) = xs"

fun declared_stmt :: "stmt \<Rightarrow> string list" where
  "declared_stmt (Const p _) = pattern_names p"
| "declared_stmt _ = []"

definition declared_block :: "stmt list \<Rightarrow> string list" where
  "declared_block ss = concat (map declared_stmt ss)"

definition reference :: "string list \<Rightarrow> string \<Rightarrow> string list" where
  "reference scope x = (if x \<in> set scope then [] else [x])"

fun free_expr :: "string list \<Rightarrow> expr \<Rightarrow> string list"
  and free_exprs :: "string list \<Rightarrow> expr list \<Rightarrow> string list"
  and free_body :: "string list \<Rightarrow> body \<Rightarrow> string list"
  and free_stmt :: "string list \<Rightarrow> stmt \<Rightarrow> string list"
  and free_stmts :: "string list \<Rightarrow> stmt list \<Rightarrow> string list"
  and free_attrs :: "string list \<Rightarrow> jsx_attr list \<Rightarrow> string list"
  and free_children :: "string list \<Rightarrow> jsx_child list \<Rightarrow> string list"
where
  "free_expr scope (NumLit _) = []"
| "free_expr scope (StrLit _) = []"
| "free_expr scope (Ident x) = reference scope x"
| "free_expr scope (Member e _) = free_expr scope e"
| "free_expr scope (Call f args) = free_expr scope f @ free_exprs scope args"
| "free_expr scope (Plus a b) = free_expr scope a @ free_expr scope b"
| "free_expr scope (Arrow params b) = free_body (params @ scope) b"
| "free_expr scope (Jsx tag attrs children) =
     (case tag of Intrinsic _ \<Rightarrow> [] | Component c \<Rightarrow> reference scope c)
     @ free_attrs scope attrs @ free_children scope children"
| "free_exprs scope [] = []"
| "free_exprs scope (e # es) = free_expr scope e @ free_exprs scope es"
| "free_body scope (ExprBody e) = free_expr scope e"
| "free_body scope (BlockBody ss) = free_stmts (declared_block ss @ scope) ss"
| "free_stmt scope (ExprStmt e) = free_expr scope e"
| "free_stmt scope (Const _ e) = free_expr scope e"
| "free_stmt scope (Return e) = free_expr scope e"
| "free_stmts scope [] = []"
| "free_stmts scope (s # ss) = free_stmt scope s @ free_stmts scope ss"
| "free_attrs scope [] = []"
| "free_attrs scope (Attr _ e # as) = free_expr scope e @ free_attrs scope as"
| "free_children scope [] = []"
| "free_children scope (c # cs) =
     (case c of
        JsxText _ \<Rightarrow> []
      | JsxExpr e \<Rightarrow> free_expr scope e
      | JsxComment \<Rightarrow> []
      | JsxElement e \<Rightarrow> free_expr scope e)
     @ free_children scope cs"

fun clause_name :: "import_clause \<Rightarrow> string" where
  "clause_name (DefaultImport x) = x"
| "clause_name (NamedImport x) = x"

fun item_bindings :: "module_item \<Rightarrow> string list" where
  "item_bindings (Import cs _) = map clause_name cs"
| "item_bindings (Item s) = declared_stmt s"
| "item_bindings (ExportConst x _) = [x]"
| "item_bindings (ExportDefault _) = []"

definition module_scope :: "js_module \<Rightarrow> string list" where
  "module_scope m = concat (map item_bindings m)"

fun free_item :: "string list \<Rightarrow> module_item \<Rightarrow> string list" where
  "free_item scope (Import _ _) = []"
| "free_item scope (Item s) = free_stmt scope s"
| "free_item scope (ExportConst _ e) = free_expr scope e"
| "free_item scope (ExportDefault e) = free_expr scope e"

definition free_module :: "js_module \<Rightarrow> string list" where
  "free_module m = concat (map (free_item (module_scope m)) m)"

fun item_imports :: "module_item \<Rightarrow> (string \<times> string) list" where
  "item_imports (Import cs spec) = map (\<lambda>c. (clause_name c, spec)) cs"
| "item_imports _ = []"

text \<open>Every imported local name with the specifier it comes from.\<close>

definition import_bindings :: "js_module \<Rightarrow> (string \<times> string) list" where
  "import_bindings m = concat (map item_imports m)"

fun item_specifier :: "module_item \<Rightarrow> string list" where
  "item_specifier (Import _ spec) = [spec]"
| "item_specifier _ = []"

definition import_specifiers :: "js_module \<Rightarrow> string list" where
  "import_specifiers m = concat (map item_specifier m)"

fun item_exports :: "module_item \<Rightarrow> string list" where
  "item_exports (ExportConst x _) = [x]"
| "item_exports (ExportDefault _) = [''default'']"
| "item_exports _ = []"

definition module_exports :: "js_module \<Rightarrow> string list" where
  "module_exports m = concat (map item_exports m)"

text \<open>The initialiser of a module-level \<open>const\<close>, exported or not.\<close>

fun item_initialiser :: "string \<Rightarrow> module_item \<Rightarrow> expr list" where
  "item_initialiser x (Item (Const (PVar y) e)) = (if x = y then [e] else [])"
| "item_initialiser x (ExportConst y e) = (if x = y then [e] else [])"
| "item_initialiser x _ = []"

definition initialiser :: "js_module \<Rightarrow> string \<Rightarrow> expr option" where
  "initialiser m x = (case concat (map (item_initialiser x) m) of [] \<Rightarrow> None | e # _ \<Rightarrow> Some e)"

fun item_default :: "module_item \<Rightarrow> expr list" where
  "item_default (ExportDefault e) = [e]"
| "item_default _ = []"

definition default_export :: "js_module \<Rightarrow> expr option" where
  "default_export m = (case concat (map item_default m) of [] \<Rightarrow> None | e # _ \<Rightarrow> Some e)"

section \<open>The three fixtures as syntax\<close>

subsection \<open>The build-failure fixture: \<open>src/components/test-build-fail.js\<close>\<close>

text \<open>Lines 10-26, the arrow function that \<open>TestBuildFailComponent\<close> is bound to.\<close>

definition TestBuildFailComponent :: expr where
  "TestBuildFailComponent = Arrow [] (BlockBody
     [Const (PArray [''count'', ''setCount'']) (Call (Ident ''useState'') [NumLit 0]),
      Return
        (Jsx (Intrinsic ''div'') [Attr ''className'' (StrLit (ascii ''test-component''))]
           [JsxElement (Jsx (Intrinsic ''h2'') []
              [JsxText [0x6D4B, 0x8BD5, 0x6784, 0x5EFA, 0x5931, 0x8D25, 0x7EC4, 0x4EF6]]),
            JsxElement (Jsx (Intrinsic ''p'') []
              [JsxText [0x70B9, 0x51FB, 0x6B21, 0x6570, 0xFF1A], JsxExpr (Ident ''count'')]),
            JsxElement (Jsx (Intrinsic ''button'')
              [Attr ''onClick''
                 (Arrow []
                    (ExprBody (Call (Ident ''setCount'') [Plus (Ident ''count'') (NumLit 1)])))]
              [JsxText [0x589E, 0x52A0, 0x8BA1, 0x6570]]),
            JsxComment,
            JsxElement (Jsx (Component ''NonExistentComponent'')
              [Attr ''title'' (StrLit [0x865A, 0x6784, 0x7EC4, 0x4EF6]),
               Attr ''content''
                 (StrLit [0x6B64, 0x7EC4, 0x4EF6, 0x6765, 0x81EA, 0x4E0D, 0x5B58, 0x5728,
                          0x7684, 0x4F9D, 0x8D56, 0x5305])]
              [])])])"

definition test_build_fail :: js_module where
  "test_build_fail =
     [Import [DefaultImport ''NonExistentComponent''] ''non-existent-lib'',
      Import [NamedImport ''useState''] ''react'',
      Item (Const (PVar ''TestBuildFailComponent'') TestBuildFailComponent),
      ExportDefault (Ident ''TestBuildFailComponent'')]"

subsection \<open>The lint-failure fixture: \<open>src/utils/test-lint-fail.js\<close>\<close>

definition lint_message :: js_string where
  "lint_message = [0x6D4B, 0x8BD5] @ ascii ''ESLint''
     @ [0x9519, 0x8BEF, 0xFF1A, 0x672A, 0x58F0, 0x660E, 0x53D8, 0x91CF, 0x8C03, 0x7528]"

definition valid_text :: js_string where
  "valid_text = [0x6B63, 0x5E38, 0x53D8, 0x91CF]"

text \<open>Lines 10-13, the arrow function that \<open>normalUtils\<close> is bound to.\<close>

definition normalUtils_expr :: expr where
  "normalUtils_expr =
     Arrow []
       (BlockBody [Const (PVar ''validVar'') (StrLit valid_text), Return (Ident ''validVar'')])"

definition test_lint_fail :: js_module where
  "test_lint_fail =
     [Item (ExprStmt (Call (Member (Ident ''console'') ''log'') [StrLit lint_message])),
      Item (ExprStmt (Call (Member (Ident ''console'') ''log'') [Ident ''undefinedVar''])),
      ExportConst ''normalUtils'' normalUtils_expr]"

subsection \<open>The test-failure fixture as syntax\<close>

definition test_fail :: js_module where
  "test_fail =
     [Import [NamedImport ''sum''] sum_specifier,
      Item (ExprStmt (Call (Ident ''test'')
        [StrLit test_name_1,
         Arrow []
           (BlockBody
              [ExprStmt
                 (Call
                    (Member (Call (Ident ''expect'') [Call (Ident ''sum'') [NumLit 2, NumLit 3]])
                       ''toBe'')
                    [NumLit 5])])])),
      Item (ExprStmt (Call (Ident ''test'')
        [StrLit test_name_2,
         Arrow []
           (BlockBody
              [Const (PVar ''result'') (Call (Ident ''sum'') [NumLit 1, NumLit 1]),
               ExprStmt
                 (Call (Member (Call (Ident ''expect'') [Ident ''result'']) ''toBe'')
                    [NumLit 3])])]))]"

subsection \<open>The lines of the files\<close>

text \<open>
  Each file line by line: an empty line, a line that holds only a comment, or a line
  with code on it (which may end in a comment).
\<close>

datatype source_line = Blank | Comment | Code

definition test_build_fail_lines :: "source_line list" where
  "test_build_fail_lines =
     [Comment, Comment, Comment, Blank, Comment, Code, Code, Blank, Comment, Code,
      Code, Blank, Code, Code, Code, Code, Code, Blank, Code, Code,
      Code, Code, Code, Code, Code, Code, Blank, Code]"

definition test_lint_fail_lines :: "source_line list" where
  "test_lint_fail_lines =
     [Comment, Comment, Comment, Blank, Comment, Code, Code, Blank, Comment, Code,
      Code, Code, Code]"

definition test_fail_lines :: "source_line list" where
  "test_fail_lines =
     [Comment, Comment, Comment, Blank, Comment, Code, Blank, Comment, Code, Code,
      Code, Blank, Comment, Code, Code, Code, Code, Blank, Comment, Comment]"

section \<open>The lint-failure fixture, run as a module\<close>

text \<open>
  The state a run can observe and change: what has been written to the console, one
  entry per call of \<open>console.log\<close> with the arguments of the call.
\<close>

record world =
  console :: "js_value list list"

definition console_log :: "js_value list \<Rightarrow> world \<Rightarrow> world" where
  "console_log args w = w\<lparr>console := console w @ [args]\<rparr>"

text \<open>
  Lines 10-13. A JavaScript function accepts any number of arguments; this one declares
  no parameter and uses none.
\<close>

type_synonym js_function = "js_value list \<Rightarrow> world \<Rightarrow> (js_error + js_value) \<times> world"

definition normalUtils :: js_function where
  "normalUtils args w = (let validVar = Str valid_text in (Inr validVar, w))"

text \<open>
  No declaration, parameter or import of the file binds \<open>console\<close> or \<open>undefinedVar\<close>,
  so both references are looked up in the global object of the host, and a name the
  global object does not define throws a reference error.
\<close>

type_synonym global_object = "string \<Rightarrow> js_value option"

definition lookup_global :: "global_object \<Rightarrow> string \<Rightarrow> js_error + js_value" where
  "lookup_global globals x =
     (case globals x of None \<Rightarrow> Inl (ReferenceError x) | Some v \<Rightarrow> Inr v)"

text \<open>
  One statement \<open>console.log(arg)\<close>, in the order the language takes the steps:
  \<open>console\<close> is resolved; its property \<open>log\<close> is read, which throws on \<open>undefined\<close>;
  the argument is evaluated; the property is called, which throws unless it is a
  function, and it is one only on the console object. The argument is handed over as
  the outcome of its own evaluation, which has no effect on the state.
\<close>

definition call_console_log ::
  "global_object \<Rightarrow> js_error + js_value \<Rightarrow> world \<Rightarrow> js_error + world" where
  "call_console_log globals arg w =
     (case lookup_global globals ''console'' of
        Inl e \<Rightarrow> Inl e
      | Inr c \<Rightarrow>
          if c = Undefined then Inl (TypeError ''console'')
          else
            (case arg of
               Inl e \<Rightarrow> Inl e
             | Inr v \<Rightarrow>
                 if c = ConsoleObject then Inr (console_log [v] w)
                 else Inl (TypeError ''console.log'')))"

text \<open>
  The module body, lines 6, 7 and 10-13. The statements run in order, a throw ends the
  evaluation, and the export of lines 10-13 is initialised only after line 7 has
  returned. The result is the error or the initialised exports, and the state of the
  console at the end.
\<close>

definition eval_test_lint_fail ::
  "global_object \<Rightarrow> world \<Rightarrow> (js_error + (string \<times> js_function) list) \<times> world" where
  "eval_test_lint_fail globals w0 =
     (case call_console_log globals (Inr (Str lint_message)) w0 of
        Inl e \<Rightarrow> (Inl e, w0)
      | Inr w1 \<Rightarrow>
          (case call_console_log globals (lookup_global globals ''undefinedVar'') w1 of
             Inl e \<Rightarrow> (Inl e, w1)
           | Inr w2 \<Rightarrow> (Inr [(''normalUtils'', normalUtils)], w2)))"

text \<open>
  Two hosts: one whose global object provides the console and nothing else that the
  fixture names, and one that also defines \<open>undefinedVar\<close>, as a script that ran
  \<open>globalThis.undefinedVar = 7\<close> before the module leaves it.
\<close>

definition plain_host :: global_object where
  "plain_host = Map.empty(''console'' \<mapsto> ConsoleObject)"

definition defining_host :: global_object where
  "defining_host = plain_host(''undefinedVar'' \<mapsto> Num 7)"

section \<open>The three tools\<close>

text \<open>
  Modelled from the spec: the bundler, the linter and the test runner are external
  tools, not code of the repository. The build tool fails module resolution and names
  the specifier it could not resolve; the linter's rule for undeclared references fires
  once per occurrence and names the identifier; the test runner reports each failed case
  with its error, or the error that kept the suite from running.
\<close>

datatype diagnostic =
    ModuleNotFound string
  | NoUndef string
  | CaseFailed js_string js_error
  | SuiteError js_error

definition build_tool :: "project \<Rightarrow> string \<Rightarrow> js_module \<Rightarrow> diagnostic list" where
  "build_tool prj path m =
     map ModuleNotFound (filter (\<lambda>spec. resolve prj path spec = None) (import_specifiers m))"

definition lint_tool :: "string list \<Rightarrow> js_module \<Rightarrow> diagnostic list" where
  "lint_tool globals m = map NoUndef (filter (\<lambda>x. x \<notin> set globals) (free_module m))"

fun case_diagnostic :: "js_string \<times> verdict \<Rightarrow> diagnostic list" where
  "case_diagnostic (name, Passed) = []"
| "case_diagnostic (name, Failed e) = [CaseFailed name e]"

definition test_tool :: "project \<Rightarrow> linker \<Rightarrow> string \<Rightarrow> diagnostic list" where
  "test_tool prj exports path =
     (case run_test_fail prj exports path of
        SuiteFailedToRun e \<Rightarrow> [SuiteError e]
      | SuiteRan vs \<Rightarrow> concat (map case_diagnostic vs))"

section \<open>Properties\<close>

subsection \<open>The two test cases\<close>

lemma case_1_passes: "test_case_1 sum_collab = Inr ()"
  by (simp add: test_case_1_def sum_collab_def expect_toBe_def)

lemma case_2_fails: "test_case_2 sum_collab = Inl (AssertionMismatch (Num 3) (Num 2))"
  by (simp add: test_case_2_def sum_collab_def expect_toBe_def)

text \<open>
  C1. With the collaborator \<open>sum\<close> defined as numeric addition, \<open>sum(1,1)\<close> is 2, so the
  assertion \<open>toBe(3)\<close> fails and reports expected 3, received 2; \<open>sum(2,3)\<close> is 5, so the
  assertion \<open>toBe(5)\<close> passes.
\<close>

theorem C1_sum_scenario:
  "sum_collab 1 1 = 2
   \<and> test_case_2 sum_collab = Inl (AssertionMismatch (Num 3) (Num 2))
   \<and> sum_collab 2 3 = 5
   \<and> test_case_1 sum_collab = Inr ()"
  by (simp add: sum_collab_def test_case_1_def test_case_2_def expect_toBe_def)

subsection \<open>Resolution of the collaborator import\<close>

lemma sum_specifier_segments:
  "split_path sum_specifier = [''..'', ''..'', ''src'', ''utils'', ''normal-utils'']"
  by (simp add: split_path_def sum_specifier_def)

lemma sum_specifier_relative: "is_relative sum_specifier"
  by (simp add: is_relative_def sum_specifier_segments)

lemma test_fail_path_segments:
  "split_path test_fail_path = [''src'', ''utils'', ''tests'', ''utils'', ''test-fail.test.js'']"
  by (simp add: split_path_def test_fail_path_def)

lemma test_fail_documented_path_segments:
  "split_path test_fail_documented_path = [''tests'', ''utils'', ''test-fail.test.js'']"
  by (simp add: split_path_def test_fail_documented_path_def)

lemma sum_target:
  "join_path (normalise [] (butlast (split_path test_fail_path) @ split_path sum_specifier))
     = ''src/utils/src/utils/normal-utils''"
  by (simp add: sum_specifier_segments test_fail_path_segments)

lemma sum_target_documented:
  "join_path (normalise []
       (butlast (split_path test_fail_documented_path) @ split_path sum_specifier))
     = ''src/utils/normal-utils''"
  by (simp add: sum_specifier_segments test_fail_documented_path_segments)

lemma resolve_sum_repository:
  "resolve (repository deps) test_fail_path sum_specifier = None"
  unfolding resolve_def sum_target
  by (simp add: sum_specifier_relative repository_def repository_files_def candidates_def
      module_extensions_def build_fail_path_def lint_fail_path_def test_fail_path_def)

lemma resolve_sum_repository_documented:
  "resolve (repository deps) test_fail_documented_path sum_specifier = None"
  unfolding resolve_def sum_target_documented
  by (simp add: sum_specifier_relative repository_def repository_files_def candidates_def
      module_extensions_def build_fail_path_def lint_fail_path_def test_fail_path_def)

lemma resolve_sum_with_collaborator:
  "resolve (with_collaborator deps) test_fail_path sum_specifier = Some collaborator_path"
  unfolding resolve_def sum_target
  by (simp add: sum_specifier_relative with_collaborator_def repository_files_def
      candidates_def module_extensions_def build_fail_path_def lint_fail_path_def
      test_fail_path_def collaborator_path_def)

text \<open>
  A \<open>normal-utils.js\<close> in \<open>src/utils\<close> is found from the location the header comment
  names, and is not found from the place the fixture has in the repository.
\<close>

lemma resolve_sum_documented_collaborator:
  "resolve (with_documented_collaborator deps) test_fail_documented_path sum_specifier
     = Some documented_collaborator_path"
  unfolding resolve_def sum_target_documented
  by (simp add: sum_specifier_relative with_documented_collaborator_def repository_files_def
      candidates_def module_extensions_def build_fail_path_def lint_fail_path_def
      test_fail_path_def documented_collaborator_path_def)

lemma resolve_sum_misplaced:
  "resolve (with_documented_collaborator deps) test_fail_path sum_specifier = None"
  unfolding resolve_def sum_target
  by (simp add: sum_specifier_relative with_documented_collaborator_def repository_files_def
      candidates_def module_extensions_def build_fail_path_def lint_fail_path_def
      test_fail_path_def documented_collaborator_path_def)

lemma import_sum_repository:
  "import_sum (repository deps) exports test_fail_path = Inl (CannotFindModule sum_specifier)"
  by (simp add: import_sum_def resolve_sum_repository)

lemma import_sum_repository_documented:
  "import_sum (repository deps) exports test_fail_documented_path
     = Inl (CannotFindModule sum_specifier)"
  by (simp add: import_sum_def resolve_sum_repository_documented)

lemma import_sum_with_collaborator:
  "import_sum (with_collaborator deps) collaborator_exports test_fail_path = Inr sum_collab"
  by (simp add: import_sum_def resolve_sum_with_collaborator collaborator_exports_def)

text \<open>
  C2. The specification asks that the collaborator module that provides \<open>sum\<close> exists
  and is resolvable from the import path of the test-failure fixture. On the files of
  the repository the import of line 6 resolves to no file, from the place the fixture
  has in the repository and from the place its header comment names, whatever the
  declared dependencies and whatever the modules of the project export; loading the
  fixture ends in a module-not-found error.
\<close>

theorem C2_collaborator_unresolved:
  "resolve (repository deps) test_fail_path sum_specifier = None
   \<and> resolve (repository deps) test_fail_documented_path sum_specifier = None
   \<and> import_sum (repository deps) exports test_fail_path = Inl (CannotFindModule sum_specifier)
   \<and> import_sum (repository deps) exports test_fail_documented_path
        = Inl (CannotFindModule sum_specifier)"
  by (simp add: resolve_sum_repository resolve_sum_repository_documented
      import_sum_repository import_sum_repository_documented)

subsection \<open>Running the suite\<close>

lemma suite_repository:
  "run_test_fail (repository deps) exports test_fail_path
     = SuiteFailedToRun (CannotFindModule sum_specifier)"
  by (simp add: run_test_fail_def import_sum_repository)

lemma suite_repository_documented:
  "run_test_fail (repository deps) exports test_fail_documented_path
     = SuiteFailedToRun (CannotFindModule sum_specifier)"
  by (simp add: run_test_fail_def import_sum_repository_documented)

text \<open>
  Once the collaborator module is in place, the suite runs both cases: the first passes,
  the second fails on its assertion, and the failure of the second leaves the verdict of
  the first alone.
\<close>

lemma suite_with_collaborator:
  "run_test_fail (with_collaborator deps) collaborator_exports test_fail_path
     = SuiteRan [(test_name_1, Passed),
                 (test_name_2, Failed (AssertionMismatch (Num 3) (Num 2)))]"
  by (simp add: run_test_fail_def import_sum_with_collaborator test_fail_cases_def
      run_cases_def run_case_def case_1_passes case_2_fails)

lemma suite_with_collaborator_counts:
  "length (reported_cases
      (run_test_fail (with_collaborator deps) collaborator_exports test_fail_path)) = 2
   \<and> passed_cases (run_test_fail (with_collaborator deps) collaborator_exports test_fail_path)
       = [test_name_1]
   \<and> failed_cases (run_test_fail (with_collaborator deps) collaborator_exports test_fail_path)
       = [test_name_2]"
  by (simp add: suite_with_collaborator reported_cases_def passed_cases_def failed_cases_def)

text \<open>
  C6. The specification asks that running the test-failure fixture as a test module
  yields exactly two reported cases, one passed and one failed, the failing case leaving
  its sibling alone. On the files of the repository the suite fails to run, because the
  import of line 6 is not found: no case is reported, none passes and none fails.
\<close>

theorem C6_suite_fails_to_run:
  "run_test_fail (repository deps) exports test_fail_path
     = SuiteFailedToRun (CannotFindModule sum_specifier)
   \<and> run_test_fail (repository deps) exports test_fail_documented_path
     = SuiteFailedToRun (CannotFindModule sum_specifier)
   \<and> reported_cases (run_test_fail (repository deps) exports test_fail_path) = []
   \<and> passed_cases (run_test_fail (repository deps) exports test_fail_path) = []
   \<and> failed_cases (run_test_fail (repository deps) exports test_fail_path) = []"
  by (simp add: suite_repository suite_repository_documented reported_cases_def
      passed_cases_def failed_cases_def)

subsection \<open>What each tool reports\<close>

lemma test_fail_specifiers: "import_specifiers test_fail = [sum_specifier]"
  by (simp add: import_specifiers_def test_fail_def)

lemma test_tool_repository:
  "test_tool (repository deps) exports test_fail_path
     = [SuiteError (CannotFindModule sum_specifier)]"
  by (simp add: test_tool_def suite_repository)

lemma test_tool_with_collaborator:
  "test_tool (with_collaborator deps) collaborator_exports test_fail_path
     = [CaseFailed test_name_2 (AssertionMismatch (Num 3) (Num 2))]"
  by (simp add: test_tool_def suite_with_collaborator)

lemma build_tool_test_fail:
  "build_tool (repository deps) test_fail_path test_fail = [ModuleNotFound sum_specifier]"
  by (simp add: build_tool_def test_fail_specifiers resolve_sum_repository)

text \<open>
  C3. The specification asks that the trigger of every fixture makes exactly its own
  tool fail, one trigger per file, without breaking another tool; in particular that the
  only failure trigger of the test-failure fixture is the mismatched assertion, not a
  module-resolution failure. On the files of the repository the test runner reports a
  module-resolution failure for the test-failure fixture and no assertion, and the same
  unresolved import is a module-not-found diagnostic for the build tool.
\<close>

theorem C3_test_fixture_trigger:
  "test_tool (repository deps) exports test_fail_path
     = [SuiteError (CannotFindModule sum_specifier)]
   \<and> build_tool (repository deps) test_fail_path test_fail = [ModuleNotFound sum_specifier]"
  by (simp add: test_tool_repository build_tool_test_fail)

subsection \<open>The build-failure fixture\<close>

lemma build_specifiers:
  "import_specifiers test_build_fail = [''non-existent-lib'', ''react'']"
  by (simp add: import_specifiers_def test_build_fail_def)

lemma bare_specifiers:
  "\<not> is_relative ''non-existent-lib''" "\<not> is_relative ''react''"
  by (simp_all add: is_relative_def split_path_def)

lemma resolve_bare:
  "\<not> is_relative spec \<Longrightarrow>
   resolve prj importer spec
     = (if spec \<in> set (dependencies prj) then Some (''node_modules/'' @ spec) else None)"
  by (simp add: resolve_def)

lemma build_tool_build_fail:
  assumes "''react'' \<in> set (dependencies prj)"
    and "''non-existent-lib'' \<notin> set (dependencies prj)"
  shows "build_tool prj build_fail_path test_build_fail = [ModuleNotFound ''non-existent-lib'']"
  using assms by (simp add: build_tool_def build_specifiers resolve_bare bare_specifiers)

lemma build_tool_reports:
  assumes "''non-existent-lib'' \<notin> set (dependencies prj)"
  shows "ModuleNotFound ''non-existent-lib''
           \<in> set (build_tool prj build_fail_path test_build_fail)"
  using assms by (simp add: build_tool_def build_specifiers resolve_bare bare_specifiers)

lemma component_free:
  "free_expr [] TestBuildFailComponent = [''useState'', ''NonExistentComponent'']"
  by (simp add: TestBuildFailComponent_def declared_block_def reference_def)

text \<open>
  C4. The build-failure fixture imports \<open>non-existent-lib\<close>, a name absent from the
  declared dependency set, and \<open>react\<close>, a declared dependency; the symbol of the
  unresolved import is depended on at the import and at a usage site inside the
  component that the module renders and exports. The declared dependency set is not a
  source file: the statement holds for every set that declares \<open>react\<close> and does not
  declare \<open>non-existent-lib\<close>.
\<close>

theorem C4_build_fixture_imports:
  assumes "''react'' \<in> set deps" and "''non-existent-lib'' \<notin> set deps"
  shows "import_bindings test_build_fail
           = [(''NonExistentComponent'', ''non-existent-lib''), (''useState'', ''react'')]
   \<and> resolve (repository deps) build_fail_path ''non-existent-lib'' = None
   \<and> resolve (repository deps) build_fail_path ''react'' = Some ''node_modules/react''
   \<and> build_tool (repository deps) build_fail_path test_build_fail
        = [ModuleNotFound ''non-existent-lib'']
   \<and> default_export test_build_fail = Some (Ident ''TestBuildFailComponent'')
   \<and> initialiser test_build_fail ''TestBuildFailComponent'' = Some TestBuildFailComponent
   \<and> ''NonExistentComponent'' \<in> set (free_expr [] TestBuildFailComponent)"
proof -
  have deps: "''react'' \<in> set (dependencies (repository deps))"
    "''non-existent-lib'' \<notin> set (dependencies (repository deps))"
    using assms by (simp_all add: repository_def)
  have "import_bindings test_build_fail
           = [(''NonExistentComponent'', ''non-existent-lib''), (''useState'', ''react'')]"
    by (simp add: import_bindings_def test_build_fail_def)
  moreover have "resolve (repository deps) build_fail_path ''non-existent-lib'' = None"
    using deps by (simp add: resolve_bare bare_specifiers)
  moreover have "resolve (repository deps) build_fail_path ''react'' = Some ''node_modules/react''"
    using deps by (simp add: resolve_bare bare_specifiers)
  moreover have "build_tool (repository deps) build_fail_path test_build_fail
        = [ModuleNotFound ''non-existent-lib'']"
    using deps by (rule build_tool_build_fail)
  moreover have "default_export test_build_fail = Some (Ident ''TestBuildFailComponent'')"
    by (simp add: default_export_def test_build_fail_def)
  moreover have
    "initialiser test_build_fail ''TestBuildFailComponent'' = Some TestBuildFailComponent"
    by (simp add: initialiser_def test_build_fail_def)
  moreover have "''NonExistentComponent'' \<in> set (free_expr [] TestBuildFailComponent)"
    unfolding component_free by simp
  ultimately show ?thesis by simp
qed

text \<open>The same at the dependency set that declares \<open>react\<close> alone.\<close>

theorem C4_build_fixture_imports_witness:
  "''react'' \<in> set [''react''] \<and> ''non-existent-lib'' \<notin> set [''react'']
   \<and> resolve (repository [''react'']) build_fail_path ''non-existent-lib'' = None
   \<and> resolve (repository [''react'']) build_fail_path ''react'' = Some ''node_modules/react''
   \<and> build_tool (repository [''react'']) build_fail_path test_build_fail
        = [ModuleNotFound ''non-existent-lib'']"
  using C4_build_fixture_imports [of "[''react'']"] by simp

subsection \<open>The lint-failure fixture\<close>

lemma lint_free: "free_module test_lint_fail = [''console'', ''console'', ''undefinedVar'']"
  by (simp add: free_module_def module_scope_def test_lint_fail_def normalUtils_expr_def
      declared_block_def reference_def)

lemma lint_tool_reports:
  assumes "''undefinedVar'' \<notin> set globals"
  shows "NoUndef ''undefinedVar'' \<in> set (lint_tool globals test_lint_fail)"
  using assms by (simp add: lint_tool_def lint_free)

text \<open>
  C5. The lint-failure fixture references \<open>undefinedVar\<close>, which no declaration, parameter
  or import of an enclosing scope binds. The rest of the file is well-formed: its only
  other unbound name is the host's \<open>console\<close>, so a linter that knows \<open>console\<close> reports
  \<open>undefinedVar\<close> and nothing else. The file exports exactly one utility, \<open>normalUtils\<close>,
  declared with \<open>const\<close>, and the local variable that \<open>normalUtils\<close> returns is declared
  in its body, which leaves the function without any unbound name.
\<close>

theorem C5_lint_fixture_reference:
  "free_module test_lint_fail = [''console'', ''console'', ''undefinedVar'']
   \<and> ''undefinedVar'' \<notin> set (module_scope test_lint_fail)
   \<and> import_bindings test_lint_fail = []
   \<and> lint_tool [''console''] test_lint_fail = [NoUndef ''undefinedVar'']
   \<and> module_exports test_lint_fail = [''normalUtils'']
   \<and> initialiser test_lint_fail ''normalUtils'' = Some normalUtils_expr
   \<and> free_expr [] normalUtils_expr = []"
proof -
  have "''undefinedVar'' \<notin> set (module_scope test_lint_fail)"
    by (simp add: module_scope_def test_lint_fail_def)
  moreover have "import_bindings test_lint_fail = []"
    by (simp add: import_bindings_def test_lint_fail_def)
  moreover have "lint_tool [''console''] test_lint_fail = [NoUndef ''undefinedVar'']"
    by (simp add: lint_tool_def lint_free)
  moreover have "module_exports test_lint_fail = [''normalUtils'']"
    by (simp add: module_exports_def test_lint_fail_def)
  moreover have "initialiser test_lint_fail ''normalUtils'' = Some normalUtils_expr"
    by (simp add: initialiser_def test_lint_fail_def)
  moreover have "free_expr [] normalUtils_expr = []"
    by (simp add: normalUtils_expr_def declared_block_def reference_def)
  ultimately show ?thesis using lint_free by simp
qed

subsection \<open>Fixtures and the tools of the other categories\<close>

text \<open>
  The build-failure fixture has no unbound name for the linter, and the lint-failure
  fixture has no import for the build tool.
\<close>

lemma build_fixture_lints_clean: "lint_tool globals test_build_fail = []"
  by (simp add: lint_tool_def free_module_def module_scope_def test_build_fail_def
      TestBuildFailComponent_def declared_block_def reference_def)

lemma lint_fixture_builds_clean: "build_tool prj lint_fail_path test_lint_fail = []"
  by (simp add: build_tool_def import_specifiers_def test_lint_fail_def)

subsection \<open>The size of the files\<close>

text \<open>
  C8. Every fixture file of the corpus is under 70 lines long: the files have 28, 13 and
  20 lines.
\<close>

theorem C8_line_counts:
  "map length [test_build_fail_lines, test_lint_fail_lines, test_fail_lines] = [28, 13, 20]
   \<and> length test_build_fail_lines < 70
   \<and> length test_lint_fail_lines < 70
   \<and> length test_fail_lines < 70"
  by (simp add: test_build_fail_lines_def test_lint_fail_lines_def test_fail_lines_def)

subsection \<open>The exported utility and the evaluation of its module\<close>

text \<open>
  C9. Every call of \<open>normalUtils\<close> returns the same four-character string, whatever
  arguments it is handed and whatever the state of the run, and leaves that state as it
  was.
\<close>

theorem C9_normalUtils_constant:
  "normalUtils args w = (Inr (Str [0x6B63, 0x5E38, 0x53D8, 0x91CF]), w)"
  by (simp add: normalUtils_def valid_text_def)

lemma plain_host_lookups:
  "plain_host ''console'' = Some ConsoleObject" "plain_host ''undefinedVar'' = None"
  by (simp_all add: plain_host_def)

lemma defining_host_lookups:
  "defining_host ''console'' = Some ConsoleObject" "defining_host ''undefinedVar'' = Some (Num 7)"
  by (simp_all add: defining_host_def plain_host_def)

text \<open>
  Where the host provides the console and does define the name, the evaluation goes on
  to the end: both lines are written and the module exports \<open>normalUtils\<close>.
\<close>

lemma eval_test_lint_fail_defined:
  assumes "globals ''console'' = Some ConsoleObject" and "globals ''undefinedVar'' = Some v"
  shows "eval_test_lint_fail globals w
           = (Inr [(''normalUtils'', normalUtils)],
              console_log [v] (console_log [Str lint_message] w))"
  using assms by (simp add: eval_test_lint_fail_def call_console_log_def lookup_global_def)

text \<open>
  Where the host does not define the name, the evaluation ends in an error whatever the
  host provides as \<open>console\<close>: the module never exports anything.
\<close>

lemma eval_test_lint_fail_never_completes:
  assumes "globals ''undefinedVar'' = None"
  shows "\<exists>e. fst (eval_test_lint_fail globals w) = Inl e"
  using assms
  by (auto simp: eval_test_lint_fail_def call_console_log_def lookup_global_def
      split: option.splits sum.splits)

text \<open>
  C10, as the specification states it, says that evaluating the lint-failure fixture as a
  module raises a reference error at \<open>undefinedVar\<close> in every run, so that the evaluation
  never completes. It fails in a host that defines the name: with \<open>undefinedVar\<close> set to
  7 in the global object and an empty console, the evaluation writes both lines and
  completes with \<open>normalUtils\<close> exported.
\<close>

theorem C10_completes_in_defining_host:
  "eval_test_lint_fail defining_host \<lparr>console = []\<rparr>
     = (Inr [(''normalUtils'', normalUtils)],
        \<lparr>console = [Str lint_message] # [Num 7] # []\<rparr>)"
  by (simp add: eval_test_lint_fail_def call_console_log_def lookup_global_def
      defining_host_lookups console_log_def)

text \<open>
  C10, amended. In every host whose global object provides the console and does not
  define \<open>undefinedVar\<close>, and from every state of the console, evaluating the lint-failure
  fixture as a module raises a reference error at \<open>undefinedVar\<close>: the first
  \<open>console.log\<close> has written its line, the second has written nothing, and the
  evaluation ends with the error in place of the exports, so \<open>normalUtils\<close> is never
  bound.
\<close>

theorem C10_module_evaluation_throws:
  assumes "globals ''console'' = Some ConsoleObject" and "globals ''undefinedVar'' = None"
  shows "eval_test_lint_fail globals w
           = (Inl (ReferenceError ''undefinedVar''), console_log [Str lint_message] w)"
  using assms by (simp add: eval_test_lint_fail_def call_console_log_def lookup_global_def)

text \<open>The same in the host that provides the console alone, on an empty console.\<close>

theorem C10_module_evaluation_throws_witness:
  "plain_host ''console'' = Some ConsoleObject
   \<and> plain_host ''undefinedVar'' = None
   \<and> eval_test_lint_fail plain_host \<lparr>console = []\<rparr>
       = (Inl (ReferenceError ''undefinedVar''), \<lparr>console = [Str lint_message] # []\<rparr>)"
  using C10_module_evaluation_throws [of plain_host "\<lparr>console = []\<rparr>"]
  by (simp add: plain_host_lookups console_log_def)

end
